theory Spec2Isabelle
  imports Complex_Main
begin

section \<open>The MIDI automation controller script\<close>

text \<open>
  A shallow embedding of \<^verbatim>\<open>src/fl_studio_automation/fl_studio_midi_controller.py\<close>.

  \<^item> Python integers are \<open>int\<close>. Python floats are idealised as \<open>real\<close>: the
    script only divides a controller value by \<open>127.0\<close>, subtracts \<open>0.5\<close> and computes
    \<open>20 + normalized * 280\<close>, and the model does this arithmetic exactly.
  \<^item> The host modules (\<open>transport\<close>, \<open>patterns\<close>, \<open>channels\<close>, \<open>mixer\<close>, \<open>ui\<close>) are not part
    of the script. A \<open>surface\<close> gives, for one callback, what each of their operations
    does when called: it returns (a value) or raises an exception.
  \<^item> The global \<open>state\<close> object is passed explicitly; a handler returns the state it
    leaves behind, the effects it had in order (calls of the host modules and debug log
    lines), and the exception that escaped it, if one did.
  \<^item> A debug log line is a constructor of \<open>log_msg\<close> carrying the values the f-string
    formats; the formatting itself is not modelled.
  \<^item> The callbacks \<^verbatim>\<open>OnInit\<close>, \<^verbatim>\<open>OnDeinit\<close>, \<^verbatim>\<open>OnIdle\<close> and \<^verbatim>\<open>OnRefresh\<close> and the utility
    functions take no part in the handling of a message and are left out, but for
    \<open>reset\<close>.
\<close>

subsection \<open>Configuration\<close>

definition DEBUG :: bool where
  "DEBUG = True"

definition MIDI_CC_MASTER_VOLUME :: int where
  "MIDI_CC_MASTER_VOLUME = 1"

definition MIDI_CC_TRACK_VOLUME :: int where
  "MIDI_CC_TRACK_VOLUME = 2"

definition MIDI_CC_PAN :: int where
  "MIDI_CC_PAN = 3"

definition MIDI_CC_TEMPO :: int where
  "MIDI_CC_TEMPO = 4"

definition MIDI_NOTE_PLAY :: int where
  "MIDI_NOTE_PLAY = 60"

definition MIDI_NOTE_STOP :: int where
  "MIDI_NOTE_STOP = 61"

definition MIDI_NOTE_RECORD :: int where
  "MIDI_NOTE_RECORD = 62"

definition PATTERN_NOTE_START :: int where
  "PATTERN_NOTE_START = 36"

definition PATTERN_NOTE_END :: int where
  "PATTERN_NOTE_END = 51"

lemmas config_defs =
  DEBUG_def MIDI_CC_MASTER_VOLUME_def MIDI_CC_TRACK_VOLUME_def MIDI_CC_PAN_def
  MIDI_CC_TEMPO_def MIDI_NOTE_PLAY_def MIDI_NOTE_STOP_def MIDI_NOTE_RECORD_def
  PATTERN_NOTE_START_def PATTERN_NOTE_END_def

subsection \<open>State\<close>

text \<open>The fields of \<^verbatim>\<open>class AutomationState\<close>, with the values \<^verbatim>\<open>__init__\<close> gives them.\<close>

record AutomationState =
  last_mixer_values :: "int \<rightharpoonup> real"
  last_channel_values :: "int \<rightharpoonup> real"
  recording_enabled :: bool
  automation_enabled :: bool
  tempo_last :: real
  active_patterns :: "int set"

definition init_state :: AutomationState where
  "init_state =
     \<lparr> last_mixer_values = Map.empty,
       last_channel_values = Map.empty,
       recording_enabled = False,
       automation_enabled = True,
       tempo_last = 120,
       active_patterns = {} \<rparr>"

definition reset :: "AutomationState \<Rightarrow> AutomationState" where
  "reset st =
     st\<lparr> last_mixer_values := Map.empty,
         last_channel_values := Map.empty,
         recording_enabled := False,
         active_patterns := {} \<rparr>"

subsection \<open>Events, the host modules, effects\<close>

text \<open>The \<open>event\<close> object the host passes to \<^verbatim>\<open>OnMidiIn\<close>.\<close>

record midi_event =
  status :: int
  data1 :: int
  data2 :: int

text \<open>An exception raised by a host module, with its message.\<close>

datatype exn = Exn string

text \<open>
  What the host modules do during one callback. \<open>None\<close> (for a procedure) and \<open>Inr v\<close>
  (for a function) mean the call returns; \<open>Some e\<close> and \<open>Inl e\<close> mean it raises \<open>e\<close>.
  \<open>patterns_set_currentPattern\<close> is the assignment \<^verbatim>\<open>patterns.currentPattern = i\<close>.
\<close>

record surface =
  transport_start :: "exn option"
  transport_stop :: "exn option"
  transport_getPos :: "int \<Rightarrow> exn + real"
  patterns_patternCount :: "exn + int"
  patterns_set_currentPattern :: "int \<Rightarrow> exn option"
  channels_channelCount :: "exn + int"
  channels_setChannelVolume :: "int \<Rightarrow> real \<Rightarrow> exn option"
  mixer_selectedTrack :: "exn + int"
  mixer_setTrackVolume :: "int \<Rightarrow> real \<Rightarrow> exn option"
  mixer_setTrackPan :: "int \<Rightarrow> real \<Rightarrow> exn option"
  ui_setHintMsg :: "real \<Rightarrow> exn option"

datatype call =
    TransportStart
  | TransportStop
  | TransportGetPos int
  | PatternsPatternCount
  | PatternsSetCurrentPattern int
  | ChannelsChannelCount
  | ChannelsSetChannelVolume int real
  | MixerSelectedTrack
  | MixerSetTrackVolume int real
  | MixerSetTrackPan int real
  | UiSetHintMsg real

datatype log_msg =
    LogMidiIn int int int
  | LogNoteOn int int
  | LogPlayCommand
  | LogStopCommand
  | LogRecordToggle
  | LogPatternTriggered int
  | LogCouldNotTriggerPattern int
  | LogChannelVolume int real
  | LogNoteOff int
  | LogCC int int real
  | LogMasterVolumeSet real
  | LogErrorMasterVolume exn
  | LogTrackVolume int real
  | LogErrorTrackVolume exn
  | LogTrackPan int real
  | LogErrorPan exn
  | LogTempoSet real
  | LogErrorTempo exn
  | LogTrackVolumeCC7 int real
  | LogErrorVolume exn
  | LogTrackPanCC10 int real
  | LogAutomation bool
  | LogProgramChange int
  | LogSwitchedToPattern int
  | LogErrorProgramChange exn

datatype effect = Call call | Log log_msg

text \<open>
  The result of running a piece of the script: the state, the effects in order, and the
  exception that is propagating (\<open>None\<close> when the code ran to its end).
\<close>

type_synonym result = "AutomationState \<times> effect list \<times> exn option"

definition state_of :: "result \<Rightarrow> AutomationState" where
  "state_of r = fst r"

definition trace_of :: "result \<Rightarrow> effect list" where
  "trace_of r = fst (snd r)"

definition raised :: "result \<Rightarrow> exn option" where
  "raised r = snd (snd r)"

fun calls_of :: "effect list \<Rightarrow> call list" where
  "calls_of [] = []"
| "calls_of (Call c # es) = c # calls_of es"
| "calls_of (Log m # es) = calls_of es"

fun logs_of :: "effect list \<Rightarrow> log_msg list" where
  "logs_of [] = []"
| "logs_of (Call c # es) = logs_of es"
| "logs_of (Log m # es) = m # logs_of es"

text \<open>\<^verbatim>\<open>pass\<close>, and falling off the end of an \<^verbatim>\<open>if\<close> chain.\<close>

definition skip :: "AutomationState \<Rightarrow> result" where
  "skip st = (st, [], None)"

text \<open>\<^verbatim>\<open>state.debug_log(message)\<close>: prints when \<open>DEBUG\<close> is set.\<close>

definition debug_log :: "log_msg \<Rightarrow> AutomationState \<Rightarrow> result" where
  "debug_log message st = (st, if DEBUG then [Log message] else [], None)"

text \<open>A call of a host procedure: the call is made, and raises if the surface says so.\<close>

definition invoke :: "call \<Rightarrow> exn option \<Rightarrow> AutomationState \<Rightarrow> result" where
  "invoke c outcome st = (st, [Call c], outcome)"

text \<open>Statement sequencing: the rest does not run when an exception is propagating.\<close>

definition seq :: "result \<Rightarrow> (AutomationState \<Rightarrow> result) \<Rightarrow> result" where
  "seq r rest =
     (case r of
        (st, t, Some e) \<Rightarrow> (st, t, Some e)
      | (st, t, None) \<Rightarrow> (case rest st of (st', t', r') \<Rightarrow> (st', t @ t', r')))"

text \<open>A call of a host function whose value the rest of the block uses.\<close>

definition query ::
  "call \<Rightarrow> exn + 'a \<Rightarrow> AutomationState \<Rightarrow> ('a \<Rightarrow> AutomationState \<Rightarrow> result) \<Rightarrow> result" where
  "query c outcome st rest =
     (case outcome of
        Inl e \<Rightarrow> (st, [Call c], Some e)
      | Inr v \<Rightarrow> seq (st, [Call c], None) (rest v))"

text \<open>
  \<^verbatim>\<open>try: body except Exception as e: handler\<close> (and the bare \<^verbatim>\<open>except:\<close>): the handler runs
  from the state the body left when it raised.
\<close>

definition try_except :: "result \<Rightarrow> (exn \<Rightarrow> AutomationState \<Rightarrow> result) \<Rightarrow> result" where
  "try_except body handler =
     (case body of
        (st, t, None) \<Rightarrow> (st, t, None)
      | (st, t, Some e) \<Rightarrow> seq (st, t, None) (handler e))"

lemmas run_defs =
  skip_def debug_log_def invoke_def seq_def query_def try_except_def
  state_of_def trace_of_def raised_def

subsection \<open>Note handlers\<close>

definition HandleNoteOn :: "surface \<Rightarrow> int \<Rightarrow> int \<Rightarrow> AutomationState \<Rightarrow> result" where
  "HandleNoteOn srf note velocity st0 =
     seq (debug_log (LogNoteOn note velocity) st0) (\<lambda>st.
       if note = MIDI_NOTE_PLAY then
         seq (debug_log LogPlayCommand st) (invoke TransportStart (transport_start srf))
       else if note = MIDI_NOTE_STOP then
         seq (debug_log LogStopCommand st) (invoke TransportStop (transport_stop srf))
       else if note = MIDI_NOTE_RECORD then
         seq (debug_log LogRecordToggle st) (\<lambda>st.
           query (TransportGetPos 0) (transport_getPos srf 0) st (\<lambda>current_pos.
             invoke TransportStart (transport_start srf)))
       else if PATTERN_NOTE_START \<le> note \<and> note \<le> PATTERN_NOTE_END then
         (let pattern_index = note - PATTERN_NOTE_START in
          seq (debug_log (LogPatternTriggered pattern_index)
                 (st\<lparr>active_patterns := insert pattern_index (active_patterns st)\<rparr>)) (\<lambda>st.
            try_except
              (query PatternsPatternCount (patterns_patternCount srf) st (\<lambda>count st.
                 if pattern_index < count then
                   invoke (PatternsSetCurrentPattern pattern_index)
                     (patterns_set_currentPattern srf pattern_index) st
                 else skip st))
              (\<lambda>e. debug_log (LogCouldNotTriggerPattern pattern_index))))
       else if 64 \<le> note \<and> note \<le> 79 then
         (let channel_index = note - 64;
              volume = real_of_int velocity / 127.0 in
          query ChannelsChannelCount (channels_channelCount srf) st (\<lambda>count st.
            if channel_index < count then
              seq (invoke (ChannelsSetChannelVolume channel_index volume)
                     (channels_setChannelVolume srf channel_index volume) st)
                (debug_log (LogChannelVolume channel_index volume))
            else skip st))
       else skip st)"

definition HandleNoteOff :: "int \<Rightarrow> AutomationState \<Rightarrow> result" where
  "HandleNoteOff note st0 =
     seq (debug_log (LogNoteOff note) st0) (\<lambda>st.
       if PATTERN_NOTE_START \<le> note \<and> note \<le> PATTERN_NOTE_END then
         (let pattern_index = note - PATTERN_NOTE_START in
          skip (st\<lparr>active_patterns := active_patterns st - {pattern_index}\<rparr>))
       else skip st)"

subsection \<open>Control change handler\<close>

definition HandleControlChange :: "surface \<Rightarrow> int \<Rightarrow> int \<Rightarrow> AutomationState \<Rightarrow> result" where
  "HandleControlChange srf cc_number cc_value st0 =
     (let normalized = real_of_int cc_value / 127.0 in
      seq (debug_log (LogCC cc_number cc_value normalized) st0) (\<lambda>st.
        if cc_number = MIDI_CC_MASTER_VOLUME then
          try_except
            (seq (invoke (MixerSetTrackVolume 0 normalized)
                    (mixer_setTrackVolume srf 0 normalized) st) (\<lambda>st.
               debug_log (LogMasterVolumeSet normalized)
                 (st\<lparr>last_mixer_values := (last_mixer_values st)(0 \<mapsto> normalized)\<rparr>)))
            (\<lambda>e. debug_log (LogErrorMasterVolume e))
        else if cc_number = MIDI_CC_TRACK_VOLUME then
          try_except
            (query MixerSelectedTrack (mixer_selectedTrack srf) st (\<lambda>track st.
               if track \<ge> 0 then
                 seq (invoke (MixerSetTrackVolume track normalized)
                        (mixer_setTrackVolume srf track normalized) st) (\<lambda>st.
                   debug_log (LogTrackVolume track normalized)
                     (st\<lparr>last_mixer_values := (last_mixer_values st)(track \<mapsto> normalized)\<rparr>))
               else skip st))
            (\<lambda>e. debug_log (LogErrorTrackVolume e))
        else if cc_number = MIDI_CC_PAN then
          try_except
            (let pan_value = normalized - 0.5 in
             query MixerSelectedTrack (mixer_selectedTrack srf) st (\<lambda>track st.
               if track \<ge> 0 then
                 seq (invoke (MixerSetTrackPan track pan_value)
                        (mixer_setTrackPan srf track pan_value) st)
                   (debug_log (LogTrackPan track pan_value))
               else skip st))
            (\<lambda>e. debug_log (LogErrorPan e))
        else if cc_number = MIDI_CC_TEMPO then
          try_except
            (let tempo = 20 + (normalized * 280) in
             seq (invoke (UiSetHintMsg tempo) (ui_setHintMsg srf tempo) st) (\<lambda>st.
               debug_log (LogTempoSet tempo) (st\<lparr>tempo_last := tempo\<rparr>)))
            (\<lambda>e. debug_log (LogErrorTempo e))
        else if cc_number = 7 then
          try_except
            (query MixerSelectedTrack (mixer_selectedTrack srf) st (\<lambda>track st.
               if track \<ge> 0 then
                 seq (invoke (MixerSetTrackVolume track normalized)
                        (mixer_setTrackVolume srf track normalized) st) (\<lambda>st.
                   debug_log (LogTrackVolumeCC7 track normalized)
                     (st\<lparr>last_mixer_values := (last_mixer_values st)(track \<mapsto> normalized)\<rparr>))
               else skip st))
            (\<lambda>e. debug_log (LogErrorVolume e))
        else if cc_number = 10 then
          try_except
            (let pan_value = normalized - 0.5 in
             query MixerSelectedTrack (mixer_selectedTrack srf) st (\<lambda>track st.
               if track \<ge> 0 then
                 seq (invoke (MixerSetTrackPan track pan_value)
                        (mixer_setTrackPan srf track pan_value) st)
                   (debug_log (LogTrackPanCC10 track pan_value))
               else skip st))
            (\<lambda>e. debug_log (LogErrorPan e))
        else if cc_number = 64 then
          (let st' = st\<lparr>automation_enabled := (cc_value \<ge> 64)\<rparr> in
           debug_log (LogAutomation (automation_enabled st')) st')
        else skip st))"

subsection \<open>Program change handler\<close>

definition HandleProgramChange :: "surface \<Rightarrow> int \<Rightarrow> AutomationState \<Rightarrow> result" where
  "HandleProgramChange srf program st0 =
     seq (debug_log (LogProgramChange program) st0) (\<lambda>st.
       try_except
         (query PatternsPatternCount (patterns_patternCount srf) st (\<lambda>count st.
            if program < count then
              seq (invoke (PatternsSetCurrentPattern program)
                     (patterns_set_currentPattern srf program) st)
                (debug_log (LogSwitchedToPattern program))
            else skip st))
         (\<lambda>e. debug_log (LogErrorProgramChange e)))"

subsection \<open>The message callback\<close>

definition OnMidiIn :: "surface \<Rightarrow> midi_event \<Rightarrow> AutomationState \<Rightarrow> result" where
  "OnMidiIn srf event st0 =
     seq (debug_log (LogMidiIn (status event) (data1 event) (data2 event)) st0) (\<lambda>st.
       if status event = 0x90 \<or> status event = 0x80 then
         (let is_note_on = (status event = 0x90 \<and> data2 event > 0);
              note_number = data1 event in
          if is_note_on then HandleNoteOn srf note_number (data2 event) st
          else HandleNoteOff note_number st)
       else if status event = 0xB0 then
         (let cc_number = data1 event;
              cc_value = data2 event in
          HandleControlChange srf cc_number cc_value st)
       else if status event = 0xC0 then
         (let program = data1 event in
          HandleProgramChange srf program st)
       else skip st)"

subsection \<open>The classification made by the callback\<close>

text \<open>
  The script has no decoder of its own: \<^verbatim>\<open>OnMidiIn\<close> compares \<^verbatim>\<open>event.status\<close> and calls a
  handler. \<open>decode\<close> is that chain of comparisons with the handler calls replaced by the
  event they stand for, and \<open>dispatch\<close> is the handler each event stands for; lemma
  \<open>OnMidiIn_decode\<close> below shows that the callback is their composition.
\<close>

datatype MidiEvent =
    NoteOn int int
  | NoteOff int
  | ControlChange int int
  | ProgramChange int
  | Unknown

definition decode :: "midi_event \<Rightarrow> MidiEvent" where
  "decode event =
     (if status event = 0x90 \<or> status event = 0x80 then
        (let is_note_on = (status event = 0x90 \<and> data2 event > 0);
             note_number = data1 event in
         if is_note_on then NoteOn note_number (data2 event)
         else NoteOff note_number)
      else if status event = 0xB0 then ControlChange (data1 event) (data2 event)
      else if status event = 0xC0 then ProgramChange (data1 event)
      else Unknown)"

fun dispatch :: "surface \<Rightarrow> MidiEvent \<Rightarrow> AutomationState \<Rightarrow> result" where
  "dispatch srf (NoteOn note velocity) st = HandleNoteOn srf note velocity st"
| "dispatch srf (NoteOff note) st = HandleNoteOff note st"
| "dispatch srf (ControlChange cc_number cc_value) st =
     HandleControlChange srf cc_number cc_value st"
| "dispatch srf (ProgramChange program) st = HandleProgramChange srf program st"
| "dispatch srf Unknown st = skip st"

text \<open>
  The classification as the specification words it, by the high nibble of the status
  byte alone. It is not taken from the script; it is what \<open>decode\<close> is compared with.
\<close>

definition spec_decode :: "midi_event \<Rightarrow> MidiEvent" where
  "spec_decode event =
     (let high_nibble = status event div 16 in
      if high_nibble = 0x8 then NoteOff (data1 event)
      else if high_nibble = 0x9 then
        (if data2 event = 0 then NoteOff (data1 event)
         else NoteOn (data1 event) (data2 event))
      else if high_nibble = 0xB then ControlChange (data1 event) (data2 event)
      else if high_nibble = 0xC then ProgramChange (data1 event)
      else Unknown)"

subsection \<open>The host delivering messages\<close>

text \<open>
  The host calls \<^verbatim>\<open>OnMidiIn\<close> once per message, in order, each time with the host modules
  in whatever condition they are then. What the host does with an exception that escapes
  the callback is not the script's to decide: with \<open>resume\<close> it goes on to the next
  message, without it the delivery ends there with that exception.
\<close>

fun deliver :: "bool \<Rightarrow> (surface \<times> midi_event) list \<Rightarrow> AutomationState \<Rightarrow> result" where
  "deliver resume [] st = skip st"
| "deliver resume ((srf, event) # rest) st =
     (case OnMidiIn srf event st of
        (st', t, None) \<Rightarrow> seq (st', t, None) (deliver resume rest)
      | (st', t, Some e) \<Rightarrow>
          if resume then seq (st', t, None) (deliver resume rest)
          else (st', t, Some e))"

subsection \<open>Vocabulary of the properties\<close>

text \<open>Whether a call of a host module, made on this surface, raises.\<close>

fun fails :: "surface \<Rightarrow> call \<Rightarrow> bool" where
  "fails srf TransportStart = (transport_start srf \<noteq> None)"
| "fails srf TransportStop = (transport_stop srf \<noteq> None)"
| "fails srf (TransportGetPos i) = isl (transport_getPos srf i)"
| "fails srf PatternsPatternCount = isl (patterns_patternCount srf)"
| "fails srf (PatternsSetCurrentPattern i) = (patterns_set_currentPattern srf i \<noteq> None)"
| "fails srf ChannelsChannelCount = isl (channels_channelCount srf)"
| "fails srf (ChannelsSetChannelVolume i v) = (channels_setChannelVolume srf i v \<noteq> None)"
| "fails srf MixerSelectedTrack = isl (mixer_selectedTrack srf)"
| "fails srf (MixerSetTrackVolume i v) = (mixer_setTrackVolume srf i v \<noteq> None)"
| "fails srf (MixerSetTrackPan i v) = (mixer_setTrackPan srf i v \<noteq> None)"
| "fails srf (UiSetHintMsg bpm) = (ui_setHintMsg srf bpm \<noteq> None)"

text \<open>The log lines the \<^verbatim>\<open>except\<close> blocks write.\<close>

fun is_error :: "log_msg \<Rightarrow> bool" where
  "is_error (LogCouldNotTriggerPattern i) = True"
| "is_error (LogErrorMasterVolume e) = True"
| "is_error (LogErrorTrackVolume e) = True"
| "is_error (LogErrorPan e) = True"
| "is_error (LogErrorTempo e) = True"
| "is_error (LogErrorVolume e) = True"
| "is_error (LogErrorProgramChange e) = True"
| "is_error m = False"

text \<open>
  The messages whose handling makes every host call inside a \<^verbatim>\<open>try\<close> block: all but a
  note-on of a transport note (60, 61, 62) or of a channel-volume note (64..79), whose
  branches of \<^verbatim>\<open>HandleNoteOn\<close> call the host unprotected.
\<close>

definition guarded :: "midi_event \<Rightarrow> bool" where
  "guarded event =
     (case decode event of
        NoteOn note velocity \<Rightarrow>
          note \<noteq> MIDI_NOTE_PLAY \<and> note \<noteq> MIDI_NOTE_STOP \<and> note \<noteq> MIDI_NOTE_RECORD \<and>
          \<not> (64 \<le> note \<and> note \<le> 79)
      | _ \<Rightarrow> True)"

text \<open>
  The ranges the specification documents for the stored values: every cached mixer
  volume in \<open>[0, 1]\<close>, the tempo in \<open>[20, 300]\<close>. (The script stores no pan.)
\<close>

definition state_in_range :: "AutomationState \<Rightarrow> bool" where
  "state_in_range st \<longleftrightarrow>
     (\<forall>v \<in> ran (last_mixer_values st). 0 \<le> v \<and> v \<le> 1) \<and>
     20 \<le> tempo_last st \<and> tempo_last st \<le> 300"

definition well_formed :: "midi_event \<Rightarrow> bool" where
  "well_formed event \<longleftrightarrow>
     0 \<le> status event \<and> status event \<le> 255 \<and>
     0 \<le> data1 event \<and> data1 event \<le> 127 \<and>
     0 \<le> data2 event \<and> data2 event \<le> 127"

subsection \<open>Three conditions of the host modules\<close>

text \<open>Everything works; four patterns, sixteen channels, mixer track 2 selected.\<close>

definition surface_ok :: surface where
  "surface_ok =
     \<lparr> transport_start = None,
       transport_stop = None,
       transport_getPos = (\<lambda>i. Inr 0),
       patterns_patternCount = Inr 4,
       patterns_set_currentPattern = (\<lambda>i. None),
       channels_channelCount = Inr 16,
       channels_setChannelVolume = (\<lambda>i v. None),
       mixer_selectedTrack = Inr 2,
       mixer_setTrackVolume = (\<lambda>i v. None),
       mixer_setTrackPan = (\<lambda>i v. None),
       ui_setHintMsg = (\<lambda>bpm. None) \<rparr>"

text \<open>The same, but every operation that takes an index refuses it.\<close>

definition surface_rejects :: surface where
  "surface_rejects =
     surface_ok
       \<lparr> patterns_set_currentPattern := (\<lambda>i. Some (Exn ''index out of range'')),
         channels_setChannelVolume := (\<lambda>i v. Some (Exn ''index out of range'')),
         mixer_setTrackVolume := (\<lambda>i v. Some (Exn ''index out of range'')),
         mixer_setTrackPan := (\<lambda>i v. Some (Exn ''index out of range'')) \<rparr>"

text \<open>The host modules are unavailable: every call raises.\<close>

definition surface_down :: surface where
  "surface_down =
     \<lparr> transport_start = Some (Exn ''unavailable''),
       transport_stop = Some (Exn ''unavailable''),
       transport_getPos = (\<lambda>i. Inl (Exn ''unavailable'')),
       patterns_patternCount = Inl (Exn ''unavailable''),
       patterns_set_currentPattern = (\<lambda>i. Some (Exn ''unavailable'')),
       channels_channelCount = Inl (Exn ''unavailable''),
       channels_setChannelVolume = (\<lambda>i v. Some (Exn ''unavailable'')),
       mixer_selectedTrack = Inl (Exn ''unavailable''),
       mixer_setTrackVolume = (\<lambda>i v. Some (Exn ''unavailable'')),
       mixer_setTrackPan = (\<lambda>i v. Some (Exn ''unavailable'')),
       ui_setHintMsg = (\<lambda>bpm. Some (Exn ''unavailable'')) \<rparr>"

lemmas surface_defs = surface_ok_def surface_rejects_def surface_down_def

section \<open>Auxiliary facts\<close>

subsection \<open>Results and sequencing\<close>

lemma result_simps [simp]:
  "state_of (s, t, r) = s" "trace_of (s, t, r) = t" "raised (s, t, r) = r"
  by (simp_all add: state_of_def trace_of_def raised_def)

lemma result_collapse: "(state_of r, trace_of r, raised r) = r"
  by (simp add: state_of_def trace_of_def raised_def)

lemma seq_debug_log:
  "seq (debug_log m st) f = (state_of (f st), Log m # trace_of (f st), raised (f st))"
  by (simp add: seq_def debug_log_def DEBUG_def state_of_def trace_of_def raised_def
      split: prod.splits)

lemma OnMidiIn_decode:
  "OnMidiIn srf event st =
     seq (debug_log (LogMidiIn (status event) (data1 event) (data2 event)) st)
       (dispatch srf (decode event))"
  by (simp add: OnMidiIn_def decode_def Let_def seq_def debug_log_def skip_def)

lemma OnMidiIn_parts:
  "state_of (OnMidiIn srf ev st) = state_of (dispatch srf (decode ev) st)"
  "trace_of (OnMidiIn srf ev st) =
     Log (LogMidiIn (status ev) (data1 ev) (data2 ev)) # trace_of (dispatch srf (decode ev) st)"
  "raised (OnMidiIn srf ev st) = raised (dispatch srf (decode ev) st)"
  by (simp_all add: OnMidiIn_decode seq_debug_log)

lemma seq_returns:
  assumes "raised r = None"
  shows "state_of (seq r k) = state_of (k (state_of r))"
    and "trace_of (seq r k) = trace_of r @ trace_of (k (state_of r))"
    and "raised (seq r k) = raised (k (state_of r))"
  using assms by (cases r; simp add: seq_def split: prod.splits)+

subsection \<open>Case analysis on note and controller numbers\<close>

lemma note_cases [case_names play stop recording pattern channel below between n63 above]:
  assumes "(note::int) = 60 \<Longrightarrow> P" "note = 61 \<Longrightarrow> P" "note = 62 \<Longrightarrow> P"
    and "36 \<le> note \<Longrightarrow> note \<le> 51 \<Longrightarrow> P"
    and "64 \<le> note \<Longrightarrow> note \<le> 79 \<Longrightarrow> P"
    and "note < 36 \<Longrightarrow> P" "51 < note \<Longrightarrow> note < 60 \<Longrightarrow> P" "note = 63 \<Longrightarrow> P"
    and "79 < note \<Longrightarrow> P"
  shows "P"
proof -
  have "note = 60 \<or> note = 61 \<or> note = 62 \<or> (36 \<le> note \<and> note \<le> 51) \<or>
        (64 \<le> note \<and> note \<le> 79) \<or>
        note < 36 \<or> (51 < note \<and> note < 60) \<or> note = 63 \<or> 79 < note"
    by arith
  then show ?thesis using assms by blast
qed

lemma cc_cases [case_names master track pan tempo cc7 cc10 cc64 other]:
  assumes "(n::int) = 1 \<Longrightarrow> P" "n = 2 \<Longrightarrow> P" "n = 3 \<Longrightarrow> P" "n = 4 \<Longrightarrow> P"
    and "n = 7 \<Longrightarrow> P" "n = 10 \<Longrightarrow> P" "n = 64 \<Longrightarrow> P"
    and "n \<noteq> 1 \<Longrightarrow> n \<noteq> 2 \<Longrightarrow> n \<noteq> 3 \<Longrightarrow> n \<noteq> 4 \<Longrightarrow> n \<noteq> 7 \<Longrightarrow> n \<noteq> 10 \<Longrightarrow> n \<noteq> 64 \<Longrightarrow> P"
  shows "P"
  using assms by blast

subsection \<open>The handlers whose host calls are protected\<close>

lemma HandleNoteOff_result:
  "HandleNoteOff note st =
     (if PATTERN_NOTE_START \<le> note \<and> note \<le> PATTERN_NOTE_END
      then st\<lparr>active_patterns := active_patterns st - {note - PATTERN_NOTE_START}\<rparr> else st,
      [Log (LogNoteOff note)], None)"
  by (simp add: HandleNoteOff_def run_defs DEBUG_def)

lemma HandleControlChange_returns: "raised (HandleControlChange srf n v st) = None"
  by (cases n rule: cc_cases)
     (simp_all add: HandleControlChange_def run_defs config_defs Let_def split: sum.splits option.splits)

lemma HandleProgramChange_returns: "raised (HandleProgramChange srf p st) = None"
  by (simp add: HandleProgramChange_def run_defs config_defs Let_def split: sum.splits option.splits)

lemma HandleNoteOn_guarded_returns:
  assumes "note \<noteq> MIDI_NOTE_PLAY" "note \<noteq> MIDI_NOTE_STOP" "note \<noteq> MIDI_NOTE_RECORD"
    and "\<not> (64 \<le> note \<and> note \<le> 79)"
  shows "raised (HandleNoteOn srf note velocity st) = None"
  using assms
  by (cases "note" rule: note_cases)
     (simp_all add: HandleNoteOn_def run_defs config_defs Let_def split: sum.splits option.splits)

lemma HandleControlChange_contained:
  assumes "\<exists>c \<in> set (calls_of (trace_of (HandleControlChange srf n v st))). fails srf c"
  shows "(\<exists>m \<in> set (logs_of (trace_of (HandleControlChange srf n v st))). is_error m)
     \<and> state_of (HandleControlChange srf n v st) = st"
  using assms
  by (cases n rule: cc_cases)
     (auto simp add: HandleControlChange_def run_defs config_defs Let_def
        split: sum.splits option.splits if_splits)

lemma HandleProgramChange_contained:
  assumes "\<exists>c \<in> set (calls_of (trace_of (HandleProgramChange srf p st))). fails srf c"
  shows "(\<exists>m \<in> set (logs_of (trace_of (HandleProgramChange srf p st))). is_error m)
     \<and> state_of (HandleProgramChange srf p st) = st"
  using assms
  by (simp add: HandleProgramChange_def run_defs config_defs Let_def
        split: sum.splits option.splits if_splits)

lemma HandleNoteOn_contained:
  assumes "note \<noteq> MIDI_NOTE_PLAY" "note \<noteq> MIDI_NOTE_STOP" "note \<noteq> MIDI_NOTE_RECORD"
    and "\<not> (64 \<le> note \<and> note \<le> 79)"
    and "\<exists>c \<in> set (calls_of (trace_of (HandleNoteOn srf note velocity st))). fails srf c"
  shows "(\<exists>m \<in> set (logs_of (trace_of (HandleNoteOn srf note velocity st))). is_error m)
     \<and> state_of (HandleNoteOn srf note velocity st) =
         st\<lparr>active_patterns := insert (note - PATTERN_NOTE_START) (active_patterns st)\<rparr>"
  using assms
  by (cases "note" rule: note_cases)
     (simp_all add: HandleNoteOn_def run_defs config_defs Let_def
        split: sum.splits option.splits if_splits)

lemma dispatch_guarded_returns:
  "guarded ev \<Longrightarrow> raised (dispatch srf (decode ev) st) = None"
  by (cases "decode ev")
     (simp_all add: guarded_def HandleNoteOn_guarded_returns HandleNoteOff_result
        HandleControlChange_returns HandleProgramChange_returns skip_def)

lemma deliver_after_return:
  "raised (OnMidiIn srf ev st) = None \<Longrightarrow>
     deliver resume ((srf, ev) # rest) st = seq (OnMidiIn srf ev st) (deliver resume rest)"
  by (cases "OnMidiIn srf ev st") (simp add: seq_def split: prod.splits)

lemma HandleNoteOn_pattern_state:
  assumes "PATTERN_NOTE_START \<le> note" "note \<le> PATTERN_NOTE_END"
  shows "state_of (HandleNoteOn srf note velocity st) =
           st\<lparr>active_patterns := insert (note - PATTERN_NOTE_START) (active_patterns st)\<rparr>"
    and "raised (HandleNoteOn srf note velocity st) = None"
  using assms
  by (simp_all add: HandleNoteOn_def run_defs config_defs Let_def
        split: sum.splits option.splits)

subsection \<open>The tempo and volume controllers\<close>

lemma HandleControlChange_tempo:
  "HandleControlChange srf MIDI_CC_TEMPO v st =
     (let tempo = 20 + (real_of_int v / 127.0) * 280.0 in
      case ui_setHintMsg srf tempo of
        None \<Rightarrow> (st\<lparr>tempo_last := tempo\<rparr>,
                 [Log (LogCC MIDI_CC_TEMPO v (real_of_int v / 127.0)),
                  Call (UiSetHintMsg tempo), Log (LogTempoSet tempo)], None)
      | Some e \<Rightarrow> (st, [Log (LogCC MIDI_CC_TEMPO v (real_of_int v / 127.0)),
                  Call (UiSetHintMsg tempo), Log (LogErrorTempo e)], None))"
  by (simp add: HandleControlChange_def run_defs config_defs Let_def split: option.splits)

lemma HandleControlChange_volume:
  assumes "n = MIDI_CC_TRACK_VOLUME \<or> n = 7"
  shows "state_of (HandleControlChange srf n v st) =
     (case mixer_selectedTrack srf of
        Inl e \<Rightarrow> st
      | Inr track \<Rightarrow>
          if 0 \<le> track \<and> mixer_setTrackVolume srf track (real_of_int v / 127.0) = None
          then st\<lparr>last_mixer_values := (last_mixer_values st)(track \<mapsto> real_of_int v / 127.0)\<rparr>
          else st)"
    and "calls_of (trace_of (HandleControlChange srf n v st)) =
     MixerSelectedTrack #
     (case mixer_selectedTrack srf of
        Inl e \<Rightarrow> []
      | Inr track \<Rightarrow>
          if 0 \<le> track then [MixerSetTrackVolume track (real_of_int v / 127.0)] else [])"
    and "raised (HandleControlChange srf n v st) = None"
  using assms
  by (auto simp add: HandleControlChange_def run_defs config_defs Let_def
        split: option.splits sum.splits)

subsection \<open>The ranges of the stored values\<close>



lemma state_in_range_other [simp]:
  "state_in_range (st\<lparr>automation_enabled := b\<rparr>) = state_in_range st"
  "state_in_range (st\<lparr>active_patterns := p\<rparr>) = state_in_range st"
  by (simp_all add: state_in_range_def)














subsection \<open>The automation flag\<close>

lemma HandleNoteOn_flag:
  "HandleNoteOn srf note velocity (st\<lparr>automation_enabled := b\<rparr>) =
     ((state_of (HandleNoteOn srf note velocity st))\<lparr>automation_enabled := b\<rparr>,
      trace_of (HandleNoteOn srf note velocity st),
      raised (HandleNoteOn srf note velocity st))"
  by (cases "note" rule: note_cases)
     (simp_all add: HandleNoteOn_def run_defs config_defs Let_def
        split: sum.splits option.splits)

lemma HandleNoteOff_flag:
  "HandleNoteOff note (st\<lparr>automation_enabled := b\<rparr>) =
     ((state_of (HandleNoteOff note st))\<lparr>automation_enabled := b\<rparr>,
      trace_of (HandleNoteOff note st),
      raised (HandleNoteOff note st))"
  by (simp add: HandleNoteOff_result)

lemma HandleControlChange_flag:
  "HandleControlChange srf n v (st\<lparr>automation_enabled := b\<rparr>) =
     ((state_of (HandleControlChange srf n v st))
        \<lparr>automation_enabled := (if n = 64 then 64 \<le> v else b)\<rparr>,
      trace_of (HandleControlChange srf n v st),
      raised (HandleControlChange srf n v st))"
  by (cases n rule: cc_cases)
     (simp_all add: HandleControlChange_def run_defs config_defs Let_def
        split: sum.splits option.splits)

lemma HandleProgramChange_flag:
  "HandleProgramChange srf p (st\<lparr>automation_enabled := b\<rparr>) =
     ((state_of (HandleProgramChange srf p st))\<lparr>automation_enabled := b\<rparr>,
      trace_of (HandleProgramChange srf p st),
      raised (HandleProgramChange srf p st))"
  by (simp add: HandleProgramChange_def run_defs config_defs Let_def
        split: sum.splits option.splits)

lemma OnMidiIn_flag:
  "OnMidiIn srf ev (st\<lparr>automation_enabled := b\<rparr>) =
     ((state_of (OnMidiIn srf ev st))
        \<lparr>automation_enabled :=
           (if status ev = 0xB0 \<and> data1 ev = 64 then 64 \<le> data2 ev else b)\<rparr>,
      trace_of (OnMidiIn srf ev st),
      raised (OnMidiIn srf ev st))"
proof (cases "decode ev")
  case (NoteOn n v)
  then have "\<not> (status ev = 0xB0)" by (auto simp add: decode_def Let_def split: if_splits)
  with NoteOn show ?thesis
    by (simp add: OnMidiIn_decode seq_debug_log HandleNoteOn_flag)
next
  case (NoteOff n)
  then have "\<not> (status ev = 0xB0)" by (auto simp add: decode_def Let_def split: if_splits)
  with NoteOff show ?thesis
    by (simp add: OnMidiIn_decode seq_debug_log HandleNoteOff_flag)
next
  case (ControlChange n v)
  then have "status ev = 0xB0" "n = data1 ev" "v = data2 ev"
    by (auto simp add: decode_def Let_def split: if_splits)
  with ControlChange show ?thesis
    by (simp add: OnMidiIn_decode seq_debug_log HandleControlChange_flag)
next
  case (ProgramChange p)
  then have "\<not> (status ev = 0xB0)" by (auto simp add: decode_def Let_def split: if_splits)
  with ProgramChange show ?thesis
    by (simp add: OnMidiIn_decode seq_debug_log HandleProgramChange_flag)
next
  case Unknown
  then have "\<not> (status ev = 0xB0)" by (auto simp add: decode_def Let_def split: if_splits)
  with Unknown show ?thesis
    by (simp add: OnMidiIn_decode seq_debug_log skip_def)
qed

lemma OnMidiIn_flag_state:
  "automation_enabled (state_of (OnMidiIn srf ev st)) =
     (if status ev = 0xB0 \<and> data1 ev = 64 then 64 \<le> data2 ev else automation_enabled st)"
proof -
  let ?c = "if status ev = 0xB0 \<and> data1 ev = 64 then 64 \<le> data2 ev else automation_enabled st"
  have "state_of (OnMidiIn srf ev (st\<lparr>automation_enabled := automation_enabled st\<rparr>)) =
      (state_of (OnMidiIn srf ev st))\<lparr>automation_enabled := ?c\<rparr>"
    by (simp only: OnMidiIn_flag result_simps)
  then have a: "state_of (OnMidiIn srf ev st) =
      (state_of (OnMidiIn srf ev st))\<lparr>automation_enabled := ?c\<rparr>"
    by simp
  have "automation_enabled (state_of (OnMidiIn srf ev st)) =
      automation_enabled ((state_of (OnMidiIn srf ev st))\<lparr>automation_enabled := ?c\<rparr>)"
    using a by (rule arg_cong)
  then show ?thesis by simp
qed

lemma deliver_Cons:
  "deliver resume ((srf, ev) # rest) st =
     (let r = OnMidiIn srf ev st in
      if raised r = None \<or> resume then
        (state_of (deliver resume rest (state_of r)),
         trace_of r @ trace_of (deliver resume rest (state_of r)),
         raised (deliver resume rest (state_of r)))
      else r)"
  by (cases "OnMidiIn srf ev st")
     (auto simp add: seq_def Let_def state_of_def trace_of_def raised_def
        split: option.splits prod.splits)

lemma deliver_flag:
  "\<exists>b'. deliver resume frames (st\<lparr>automation_enabled := b\<rparr>) =
     ((state_of (deliver resume frames st))\<lparr>automation_enabled := b'\<rparr>,
      trace_of (deliver resume frames st),
      raised (deliver resume frames st))"
proof (induction frames arbitrary: st b)
  case Nil
  show ?case by (rule exI [of _ b]) (simp add: skip_def)
next
  case (Cons f frames)
  obtain srf ev where f: "f = (srf, ev)" by (cases f)
  obtain s1 t1 r1 where r: "OnMidiIn srf ev st = (s1, t1, r1)" by (cases "OnMidiIn srf ev st")
  define b1 where "b1 = (if status ev = 0xB0 \<and> data1 ev = 64 then 64 \<le> data2 ev else b)"
  have r': "OnMidiIn srf ev (st\<lparr>automation_enabled := b\<rparr>) =
      (s1\<lparr>automation_enabled := b1\<rparr>, t1, r1)"
    by (simp add: OnMidiIn_flag r b1_def)
  from Cons.IH [where st = s1 and b = b1] obtain b2 where
    ih: "deliver resume frames (s1\<lparr>automation_enabled := b1\<rparr>) =
     ((state_of (deliver resume frames s1))\<lparr>automation_enabled := b2\<rparr>,
      trace_of (deliver resume frames s1),
      raised (deliver resume frames s1))" by blast
  show ?case
  proof (cases "r1 = None \<or> resume")
    case True
    then have "deliver resume (f # frames) (st\<lparr>automation_enabled := b\<rparr>) =
     ((state_of (deliver resume (f # frames) st))\<lparr>automation_enabled := b2\<rparr>,
      trace_of (deliver resume (f # frames) st),
      raised (deliver resume (f # frames) st))"
      unfolding f by (simp add: deliver_Cons Let_def r r' ih del: deliver.simps)
    then show ?thesis by blast
  next
    case False
    then obtain e where "r1 = Some e" and "\<not> resume" by auto
    then have "deliver resume (f # frames) (st\<lparr>automation_enabled := b\<rparr>) =
     ((state_of (deliver resume (f # frames) st))\<lparr>automation_enabled := b1\<rparr>,
      trace_of (deliver resume (f # frames) st),
      raised (deliver resume (f # frames) st))"
      unfolding f by (simp add: deliver_Cons Let_def r r' del: deliver.simps)
    then show ?thesis by blast
  qed
qed

subsection \<open>Status bytes\<close>

lemma status_nibble:
  "(s::int) mod 16 = 0 \<Longrightarrow> (s div 16 = 8) = (s = 128)"
  "(s::int) mod 16 = 0 \<Longrightarrow> (s div 16 = 9) = (s = 144)"
  "(s::int) mod 16 = 0 \<Longrightarrow> (s div 16 = 11) = (s = 176)"
  "(s::int) mod 16 = 0 \<Longrightarrow> (s div 16 = 12) = (s = 192)"
  by presburger+

lemma decode_spec_decode:
  "0 \<le> data2 ev \<Longrightarrow>
     decode ev = (if status ev mod 16 = 0 then spec_decode ev else Unknown)"
  by (auto simp add: decode_def spec_decode_def Let_def status_nibble)

section \<open>The claims\<close>

text \<open>
  C1 (as amended). The callback classifies a message by its whole status byte, not by
  the high nibble: it agrees with the high-nibble classification exactly on the status
  bytes whose low nibble is 0 (\<open>0x80\<close>, \<open>0x90\<close>, \<open>0xB0\<close>, \<open>0xC0\<close>) and treats every other
  status byte as unknown. An unknown message only writes its log line: the state is
  unchanged, no host module is called, nothing is raised. A note-on \<open>0x90\<close> with
  velocity 0 is a note-off, with the state, host calls and outcome of \<open>0x80\<close> for the
  same note.
\<close>

theorem decode_exact_status:
  assumes "0 \<le> data2 ev"
  shows "decode ev = (if status ev mod 16 = 0 then spec_decode ev else Unknown) \<and>
         OnMidiIn srf ev st =
           seq (debug_log (LogMidiIn (status ev) (data1 ev) (data2 ev)) st)
             (dispatch srf (decode ev)) \<and>
         (decode ev = Unknown \<longrightarrow>
            OnMidiIn srf ev st =
              (st, [Log (LogMidiIn (status ev) (data1 ev) (data2 ev))], None)) \<and>
         decode \<lparr>status = 0x90, data1 = n, data2 = 0\<rparr> = NoteOff n \<and>
         decode \<lparr>status = 0x80, data1 = n, data2 = d\<rparr> = NoteOff n \<and>
         state_of (OnMidiIn srf \<lparr>status = 0x90, data1 = n, data2 = 0\<rparr> st) =
           state_of (OnMidiIn srf \<lparr>status = 0x80, data1 = n, data2 = d\<rparr> st) \<and>
         calls_of (trace_of (OnMidiIn srf \<lparr>status = 0x90, data1 = n, data2 = 0\<rparr> st)) =
           calls_of (trace_of (OnMidiIn srf \<lparr>status = 0x80, data1 = n, data2 = d\<rparr> st)) \<and>
         raised (OnMidiIn srf \<lparr>status = 0x90, data1 = n, data2 = 0\<rparr> st) =
           raised (OnMidiIn srf \<lparr>status = 0x80, data1 = n, data2 = d\<rparr> st)"
proof -
  have a: "decode \<lparr>status = 0x90, data1 = n, data2 = 0\<rparr> = NoteOff n"
    and b: "decode \<lparr>status = 0x80, data1 = n, data2 = d\<rparr> = NoteOff n"
    by (simp_all add: decode_def)
  have c: "decode ev = Unknown \<longrightarrow>
      OnMidiIn srf ev st = (st, [Log (LogMidiIn (status ev) (data1 ev) (data2 ev))], None)"
    by (simp add: OnMidiIn_decode seq_debug_log skip_def)
  have e: "state_of (OnMidiIn srf \<lparr>status = 0x90, data1 = n, data2 = 0\<rparr> st) =
           state_of (OnMidiIn srf \<lparr>status = 0x80, data1 = n, data2 = d\<rparr> st)"
    and f: "calls_of (trace_of (OnMidiIn srf \<lparr>status = 0x90, data1 = n, data2 = 0\<rparr> st)) =
           calls_of (trace_of (OnMidiIn srf \<lparr>status = 0x80, data1 = n, data2 = d\<rparr> st))"
    and g: "raised (OnMidiIn srf \<lparr>status = 0x90, data1 = n, data2 = 0\<rparr> st) =
           raised (OnMidiIn srf \<lparr>status = 0x80, data1 = n, data2 = d\<rparr> st)"
    by (simp_all add: OnMidiIn_parts a b)
  from decode_spec_decode [OF assms] OnMidiIn_decode [of srf ev st] c a b e f g
  show ?thesis by blast
qed

theorem decode_exact_status_witness:
  "(0::int) \<le> data2 \<lparr>status = 0x90, data1 = 40, data2 = 100\<rparr> \<and>
   decode \<lparr>status = 0x90, data1 = 40, data2 = 100\<rparr> = NoteOn 40 100 \<and>
   decode \<lparr>status = 0x90, data1 = 40, data2 = 0\<rparr> = NoteOff 40"
proof -
  have h: "(0::int) \<le> data2 \<lparr>status = 0x90, data1 = 40, data2 = 100\<rparr>" by simp
  have s: "spec_decode \<lparr>status = 0x90, data1 = 40, data2 = 100\<rparr> = NoteOn 40 100"
    by (simp add: spec_decode_def)
  have m: "status \<lparr>status = 0x90, data1 = 40, data2 = 100\<rparr> mod 16 = 0" by simp
  from decode_exact_status [OF h, of surface_ok init_state 40 0]
  have "decode \<lparr>status = 0x90, data1 = 40, data2 = 100\<rparr> =
          (if status \<lparr>status = 0x90, data1 = 40, data2 = 100\<rparr> mod 16 = 0
           then spec_decode \<lparr>status = 0x90, data1 = 40, data2 = 100\<rparr> else Unknown)"
    and "decode \<lparr>status = 0x90, data1 = 40, data2 = 0\<rparr> = NoteOff 40"
    by blast+
  with h s m show ?thesis by metis
qed

text \<open>
  C1 as stated fails: status \<open>0x91\<close> has high nibble 9 and a positive velocity, yet the
  message is not a note-on; the same note on status \<open>0x90\<close> starts the transport.
\<close>

theorem other_channel_note_on_ignored:
  "(0x91::int) div 16 = 0x9 \<and> (0::int) < 100 \<and>
   decode \<lparr>status = 0x91, data1 = 60, data2 = 100\<rparr> = Unknown \<and>
   decode \<lparr>status = 0x91, data1 = 60, data2 = 100\<rparr> \<noteq> NoteOn 60 100 \<and>
   OnMidiIn surface_ok \<lparr>status = 0x91, data1 = 60, data2 = 100\<rparr> init_state =
     (init_state, [Log (LogMidiIn 0x91 60 100)], None) \<and>
   calls_of (trace_of (OnMidiIn surface_ok \<lparr>status = 0x90, data1 = 60, data2 = 100\<rparr> init_state)) =
     [TransportStart]"
  by (simp add: decode_def OnMidiIn_def HandleNoteOn_def run_defs config_defs)

text \<open>
  C2 (as amended). Take a message all of whose host calls are made inside a \<^verbatim>\<open>try\<close>
  block (every message but a note-on of a transport note or of a channel-volume note),
  and suppose a host call made while handling it fails. Then the callback returns
  normally, an error line is logged, and the state is unchanged, except that a pattern
  note-on has already recorded its pattern in \<open>active_patterns\<close> before the host was
  called. The host therefore goes on to the next message, which is handled from that
  state, whether or not it resumes after an escaped exception.
\<close>

theorem failed_action_contained:
  assumes "guarded ev"
    and "\<exists>c \<in> set (calls_of (trace_of (OnMidiIn srf ev st))). fails srf c"
  shows "raised (OnMidiIn srf ev st) = None \<and>
         (\<exists>m \<in> set (logs_of (trace_of (OnMidiIn srf ev st))). is_error m) \<and>
         state_of (OnMidiIn srf ev st) =
           (case decode ev of
              NoteOn note velocity \<Rightarrow>
                st\<lparr>active_patterns := insert (note - PATTERN_NOTE_START) (active_patterns st)\<rparr>
            | _ \<Rightarrow> st) \<and>
         deliver resume ((srf, ev) # rest) st =
           seq (OnMidiIn srf ev st) (deliver resume rest)"
proof -
  have ret: "raised (OnMidiIn srf ev st) = None"
    using assms(1) by (simp add: OnMidiIn_parts dispatch_guarded_returns)
  from assms(2)
  have calls: "\<exists>c \<in> set (calls_of (trace_of (dispatch srf (decode ev) st))). fails srf c"
    by (simp add: OnMidiIn_parts)
  have "(\<exists>m \<in> set (logs_of (trace_of (dispatch srf (decode ev) st))). is_error m) \<and>
        state_of (dispatch srf (decode ev) st) =
           (case decode ev of
              NoteOn note velocity \<Rightarrow>
                st\<lparr>active_patterns := insert (note - PATTERN_NOTE_START) (active_patterns st)\<rparr>
            | _ \<Rightarrow> st)"
  proof (cases "decode ev")
    case (NoteOn n v)
    with assms(1) calls show ?thesis
      using HandleNoteOn_contained [of n srf v st] by (simp add: guarded_def)
  next
    case (NoteOff n)
    with calls show ?thesis by (simp add: HandleNoteOff_result)
  next
    case (ControlChange n v)
    with calls show ?thesis
      using HandleControlChange_contained [of srf n v st] by simp
  next
    case (ProgramChange p)
    with calls show ?thesis
      using HandleProgramChange_contained [of srf p st] by simp
  next
    case Unknown
    with calls show ?thesis by (simp add: skip_def)
  qed
  then show ?thesis
    using ret deliver_after_return [OF ret] by (simp add: OnMidiIn_parts)
qed

theorem failed_action_contained_witness:
  "guarded \<lparr>status = 0xB0, data1 = 1, data2 = 100\<rparr> \<and>
   (\<exists>c \<in> set (calls_of (trace_of
       (OnMidiIn surface_rejects \<lparr>status = 0xB0, data1 = 1, data2 = 100\<rparr> init_state))).
      fails surface_rejects c) \<and>
   raised (OnMidiIn surface_rejects \<lparr>status = 0xB0, data1 = 1, data2 = 100\<rparr> init_state) = None \<and>
   state_of (OnMidiIn surface_rejects \<lparr>status = 0xB0, data1 = 1, data2 = 100\<rparr> init_state) =
     init_state \<and>
   \<not> automation_enabled (state_of (deliver False
       [(surface_rejects, \<lparr>status = 0xB0, data1 = 1, data2 = 100\<rparr>),
        (surface_ok, \<lparr>status = 0xB0, data1 = 64, data2 = 0\<rparr>)] init_state))"
proof -
  let ?ev = "\<lparr>status = 0xB0, data1 = 1, data2 = 100\<rparr>"
  let ?rest = "[(surface_ok, \<lparr>status = 0xB0, data1 = 64, data2 = 0\<rparr>)]"
  have d: "decode ?ev = ControlChange 1 100" by (simp add: decode_def)
  have h1: "guarded ?ev" by (simp add: guarded_def d)
  have h2: "\<exists>c \<in> set (calls_of (trace_of (OnMidiIn surface_rejects ?ev init_state))).
      fails surface_rejects c"
    by (simp add: OnMidiIn_def HandleControlChange_def run_defs config_defs surface_defs Let_def)
  note t = failed_action_contained [OF h1 h2, of False ?rest]
  from t have r: "raised (OnMidiIn surface_rejects ?ev init_state) = None" by blast
  from t d have s: "state_of (OnMidiIn surface_rejects ?ev init_state) = init_state" by simp
  from t have "deliver False ((surface_rejects, ?ev) # ?rest) init_state =
      seq (OnMidiIn surface_rejects ?ev init_state) (deliver False ?rest)" by blast
  then have "state_of (deliver False ((surface_rejects, ?ev) # ?rest) init_state) =
      state_of (deliver False ?rest init_state)"
    by (simp add: seq_returns [OF r] s)
  moreover have "\<not> automation_enabled (state_of (deliver False ?rest init_state))"
    by (simp add: OnMidiIn_def HandleControlChange_def run_defs config_defs Let_def)
  ultimately have n: "\<not> automation_enabled
      (state_of (deliver False ((surface_rejects, ?ev) # ?rest) init_state))" by simp
  from h1 h2 r s n show ?thesis by blast
qed

text \<open>
  C2 as stated fails: for note 36 the host refuses the selection of pattern 0, yet the
  state has changed, pattern 0 having been added to \<open>active_patterns\<close> before the call.
\<close>

theorem rejected_pattern_still_recorded:
  "fails surface_rejects (PatternsSetCurrentPattern 0) \<and>
   calls_of (trace_of
     (OnMidiIn surface_rejects \<lparr>status = 0x90, data1 = 36, data2 = 100\<rparr> init_state)) =
     [PatternsPatternCount, PatternsSetCurrentPattern 0] \<and>
   active_patterns init_state = {} \<and>
   active_patterns (state_of
     (OnMidiIn surface_rejects \<lparr>status = 0x90, data1 = 36, data2 = 100\<rparr> init_state)) = {0} \<and>
   state_of (OnMidiIn surface_rejects \<lparr>status = 0x90, data1 = 36, data2 = 100\<rparr> init_state)
     \<noteq> init_state"
  by (simp add: OnMidiIn_def HandleNoteOn_def run_defs config_defs surface_defs init_state_def)

text \<open>
  C3 (as amended). A program change first asks the host for the pattern count, and
  selects pattern \<open>p\<close> exactly when that query returns a count above \<open>p\<close>; it never
  changes the state and never raises. The range check is made by the script itself.
\<close>

theorem program_change_checks_pattern_count:
  "calls_of (trace_of (HandleProgramChange srf p st)) =
     PatternsPatternCount #
       (case patterns_patternCount srf of
          Inl e \<Rightarrow> []
        | Inr count \<Rightarrow> if p < count then [PatternsSetCurrentPattern p] else []) \<and>
   calls_of (trace_of (OnMidiIn srf \<lparr>status = 0xC0, data1 = p, data2 = d\<rparr> st)) =
     calls_of (trace_of (HandleProgramChange srf p st)) \<and>
   state_of (HandleProgramChange srf p st) = st \<and>
   raised (HandleProgramChange srf p st) = None"
  by (simp add: OnMidiIn_def seq_debug_log)
     (simp add: HandleProgramChange_def run_defs DEBUG_def split: sum.splits option.splits)

text \<open>
  C3 as stated fails: with four patterns, program change 5 only queries the pattern
  count; no selection of pattern 5 is issued.
\<close>

theorem program_change_beyond_count_not_selected:
  "patterns_patternCount surface_ok = Inr 4 \<and>
   calls_of (trace_of (OnMidiIn surface_ok \<lparr>status = 0xC0, data1 = 5, data2 = 0\<rparr> init_state)) =
     [PatternsPatternCount] \<and>
   PatternsSetCurrentPattern 5 \<notin>
     set (calls_of (trace_of (OnMidiIn surface_ok \<lparr>status = 0xC0, data1 = 5, data2 = 0\<rparr> init_state)))"
  by (simp add: OnMidiIn_def HandleProgramChange_def run_defs config_defs surface_defs)

text \<open>
  C4 does not hold of the script: \<^verbatim>\<open>HandleNoteOn\<close> calls \<^verbatim>\<open>transport.start()\<close> (note 60) and
  \<^verbatim>\<open>channels.channelCount()\<close>, \<^verbatim>\<open>channels.setChannelVolume()\<close> (notes 64..79) outside any
  \<^verbatim>\<open>try\<close> block, so a failure of the host module escapes the callback, and a host that
  does not resume never delivers the next message. The pattern branch of the same
  handler (note 36) protects its host calls and returns.
\<close>

theorem unguarded_host_call_escapes:
  "well_formed \<lparr>status = 0x90, data1 = 60, data2 = 100\<rparr> \<and>
   raised (OnMidiIn surface_down \<lparr>status = 0x90, data1 = 60, data2 = 100\<rparr> init_state) =
     Some (Exn ''unavailable'') \<and>
   well_formed \<lparr>status = 0x90, data1 = 64, data2 = 100\<rparr> \<and>
   raised (OnMidiIn surface_down \<lparr>status = 0x90, data1 = 64, data2 = 100\<rparr> init_state) =
     Some (Exn ''unavailable'') \<and>
   raised (OnMidiIn surface_rejects \<lparr>status = 0x90, data1 = 64, data2 = 100\<rparr> init_state) =
     Some (Exn ''index out of range'') \<and>
   raised (deliver False
     [(surface_down, \<lparr>status = 0x90, data1 = 60, data2 = 100\<rparr>),
      (surface_ok, \<lparr>status = 0xB0, data1 = 64, data2 = 0\<rparr>)] init_state) =
     Some (Exn ''unavailable'') \<and>
   raised (OnMidiIn surface_down \<lparr>status = 0x90, data1 = 36, data2 = 100\<rparr> init_state) = None"
  by (simp add: well_formed_def OnMidiIn_def HandleNoteOn_def run_defs config_defs surface_defs)




text \<open>
  C6. For a note of the pattern range, a note-on followed by the note-off of the same
  note, starting with no active pattern, leaves no active pattern, whatever the host
  modules do in between; and a note-off alone on an empty \<open>active_patterns\<close> leaves it
  empty and raises nothing.
\<close>

theorem note_on_then_off_clears_pattern:
  assumes "PATTERN_NOTE_START \<le> note" and "note \<le> PATTERN_NOTE_END"
    and "0 < velocity" and "active_patterns st = {}"
  shows "active_patterns (state_of (deliver resume
           [(srf1, \<lparr>status = 0x90, data1 = note, data2 = velocity\<rparr>),
            (srf2, \<lparr>status = 0x80, data1 = note, data2 = d\<rparr>)] st)) = {} \<and>
         raised (deliver resume
           [(srf1, \<lparr>status = 0x90, data1 = note, data2 = velocity\<rparr>),
            (srf2, \<lparr>status = 0x80, data1 = note, data2 = d\<rparr>)] st) = None \<and>
         active_patterns (state_of
           (seq (HandleNoteOn srf1 note velocity st) (HandleNoteOff note))) = {} \<and>
         raised (seq (HandleNoteOn srf1 note velocity st) (HandleNoteOff note)) = None \<and>
         active_patterns (state_of
           (OnMidiIn srf2 \<lparr>status = 0x80, data1 = note, data2 = d\<rparr> st)) = {} \<and>
         raised (OnMidiIn srf2 \<lparr>status = 0x80, data1 = note, data2 = d\<rparr> st) = None \<and>
         active_patterns (state_of (HandleNoteOff note st)) = {} \<and>
         raised (HandleNoteOff note st) = None"
proof -
  let ?on = "\<lparr>status = 0x90, data1 = note, data2 = velocity\<rparr>"
  let ?off = "\<lparr>status = 0x80, data1 = note, data2 = d\<rparr>"
  note on = HandleNoteOn_pattern_state [OF assms(1,2), of srf1 velocity st]
  have don: "decode ?on = NoteOn note velocity" using assms(3) by (simp add: decode_def)
  have doff: "decode ?off = NoteOff note" by (simp add: decode_def)
  have r1: "raised (OnMidiIn srf1 ?on st) = None"
    and s1: "state_of (OnMidiIn srf1 ?on st) =
      st\<lparr>active_patterns := insert (note - PATTERN_NOTE_START) (active_patterns st)\<rparr>"
    by (simp_all add: OnMidiIn_parts don on)
  have r2: "raised (OnMidiIn srf2 ?off s) = None" for s
    by (simp add: OnMidiIn_parts doff HandleNoteOff_result)
  have s2: "active_patterns (state_of (OnMidiIn srf2 ?off s)) =
      active_patterns s - {note - PATTERN_NOTE_START}" for s
    using assms(1,2) by (simp add: OnMidiIn_parts doff HandleNoteOff_result)
  have one: "deliver resume [(srf1, ?on), (srf2, ?off)] st =
      seq (OnMidiIn srf1 ?on st) (deliver resume [(srf2, ?off)])"
    by (rule deliver_after_return [OF r1])
  have two: "deliver resume [(srf2, ?off)] s = seq (OnMidiIn srf2 ?off s) (deliver resume [])"
    for s by (rule deliver_after_return [OF r2])
  have nil: "deliver resume [] s = (s, [], None)" for s by (simp add: skip_def)
  have a: "active_patterns (state_of (deliver resume [(srf1, ?on), (srf2, ?off)] st)) = {}"
    unfolding one
    by (simp add: seq_returns [OF r1] two seq_returns [OF r2] nil s1 s2 assms(4)
          del: deliver.simps)
  have b: "raised (deliver resume [(srf1, ?on), (srf2, ?off)] st) = None"
    unfolding one
    by (simp add: seq_returns [OF r1] two seq_returns [OF r2] nil del: deliver.simps)
  have c: "active_patterns (state_of
           (seq (HandleNoteOn srf1 note velocity st) (HandleNoteOff note))) = {}"
    and c': "raised (seq (HandleNoteOn srf1 note velocity st) (HandleNoteOff note)) = None"
    using assms(1,2,4) by (simp_all add: seq_returns [OF on(2)] on(1) HandleNoteOff_result)
  have e: "active_patterns (state_of (HandleNoteOff note st)) = {}"
    and f: "raised (HandleNoteOff note st) = None"
    using assms(4) by (simp_all add: HandleNoteOff_result)
  from a b c c' s2 [of st] r2 [of st] e f assms(4) show ?thesis by simp
qed

theorem note_on_then_off_clears_pattern_witness:
  "PATTERN_NOTE_START \<le> 40 \<and> 40 \<le> PATTERN_NOTE_END \<and> (0::int) < 100 \<and>
   active_patterns init_state = {} \<and>
   active_patterns (state_of (deliver False
           [(surface_rejects, \<lparr>status = 0x90, data1 = 40, data2 = 100\<rparr>),
            (surface_down, \<lparr>status = 0x80, data1 = 40, data2 = 0\<rparr>)] init_state)) = {} \<and>
   active_patterns (state_of
           (OnMidiIn surface_down \<lparr>status = 0x80, data1 = 40, data2 = 0\<rparr> init_state)) = {}"
proof -
  have h1: "PATTERN_NOTE_START \<le> 40" and h2: "40 \<le> PATTERN_NOTE_END"
    by (simp_all add: config_defs)
  have h3: "(0::int) < 100" by simp
  have h4: "active_patterns init_state = {}" by (simp add: init_state_def)
  from note_on_then_off_clears_pattern [OF h1 h2 h3 h4, of False surface_rejects surface_down 0]
  show ?thesis using h1 h2 h3 h4 by blast
qed

text \<open>
  C7. Controller 64 with value \<open>v\<close> sets \<open>automation_enabled\<close> to \<open>v \<ge> 64\<close>, whatever the
  host modules do: value 63 disables automation, value 64 enables it.
\<close>

theorem sustain_sets_automation_enabled:
  "automation_enabled (state_of (HandleControlChange srf 64 v st)) = (64 \<le> v) \<and>
   automation_enabled
     (state_of (OnMidiIn srf \<lparr>status = 0xB0, data1 = 64, data2 = v\<rparr> st)) = (64 \<le> v) \<and>
   \<not> automation_enabled
     (state_of (OnMidiIn srf \<lparr>status = 0xB0, data1 = 64, data2 = 63\<rparr> st)) \<and>
   automation_enabled
     (state_of (OnMidiIn srf \<lparr>status = 0xB0, data1 = 64, data2 = 64\<rparr> st)) \<and>
   raised (OnMidiIn srf \<lparr>status = 0xB0, data1 = 64, data2 = v\<rparr> st) = None"
  by (simp add: OnMidiIn_def HandleControlChange_def run_defs config_defs)

text \<open>
  C8. While the hint display works, controller \<open>MIDI_CC_TEMPO\<close> with value \<open>v\<close> shows and
  stores the tempo \<open>20 + (v / 127) * 280\<close>: 20 BPM for 0, 300 BPM for 127, strictly
  increasing in \<open>v\<close>. (Floats are read as reals.)
\<close>

theorem tempo_hint_mapping:
  assumes "\<forall>bpm. ui_setHintMsg srf bpm = None"
  shows "tempo_last (state_of (HandleControlChange srf MIDI_CC_TEMPO v st)) =
           20 + (real_of_int v / 127) * 280 \<and>
         calls_of (trace_of (HandleControlChange srf MIDI_CC_TEMPO v st)) =
           [UiSetHintMsg (20 + (real_of_int v / 127) * 280)] \<and>
         state_of (OnMidiIn srf \<lparr>status = 0xB0, data1 = 4, data2 = v\<rparr> st) =
           state_of (HandleControlChange srf MIDI_CC_TEMPO v st) \<and>
         tempo_last (state_of (HandleControlChange srf MIDI_CC_TEMPO 0 st)) = 20 \<and>
         tempo_last (state_of (HandleControlChange srf MIDI_CC_TEMPO 127 st)) = 300 \<and>
         (v < w \<longrightarrow>
            tempo_last (state_of (HandleControlChange srf MIDI_CC_TEMPO v st)) <
            tempo_last (state_of (HandleControlChange srf MIDI_CC_TEMPO w st')))"
proof -
  have t: "tempo_last (state_of (HandleControlChange srf MIDI_CC_TEMPO u s)) =
      20 + (real_of_int u / 127) * 280" for u s
    using assms by (simp add: HandleControlChange_tempo Let_def)
  have c: "calls_of (trace_of (HandleControlChange srf MIDI_CC_TEMPO v st)) =
      [UiSetHintMsg (20 + (real_of_int v / 127) * 280)]"
    using assms by (simp add: HandleControlChange_tempo Let_def)
  have o: "state_of (OnMidiIn srf \<lparr>status = 0xB0, data1 = 4, data2 = v\<rparr> st) =
           state_of (HandleControlChange srf MIDI_CC_TEMPO v st)"
    by (simp add: OnMidiIn_parts decode_def MIDI_CC_TEMPO_def)
  have lo: "tempo_last (state_of (HandleControlChange srf MIDI_CC_TEMPO 0 st)) = 20"
    and hi: "tempo_last (state_of (HandleControlChange srf MIDI_CC_TEMPO 127 st)) = 300"
    by (simp_all add: t)
  have m: "v < w \<longrightarrow>
            tempo_last (state_of (HandleControlChange srf MIDI_CC_TEMPO v st)) <
            tempo_last (state_of (HandleControlChange srf MIDI_CC_TEMPO w st'))"
    by (simp add: t)
  from t [of v st] c o lo hi m show ?thesis by blast
qed

theorem tempo_hint_mapping_witness:
  "(\<forall>bpm. ui_setHintMsg surface_ok bpm = None) \<and>
   tempo_last (state_of (HandleControlChange surface_ok MIDI_CC_TEMPO 0 init_state)) = 20 \<and>
   tempo_last (state_of (HandleControlChange surface_ok MIDI_CC_TEMPO 127 init_state)) = 300 \<and>
   (63::int) < 64 \<and>
   tempo_last (state_of (HandleControlChange surface_ok MIDI_CC_TEMPO 63 init_state)) <
   tempo_last (state_of (HandleControlChange surface_ok MIDI_CC_TEMPO 64 init_state))"
proof -
  have h: "\<forall>bpm. ui_setHintMsg surface_ok bpm = None" by (simp add: surface_ok_def)
  have l: "(63::int) < 64" by simp
  from tempo_hint_mapping [OF h, of 63 init_state 64 init_state] h l
  show ?thesis by blast
qed

text \<open>
  C9. With a mixer track selected whose volume the host accepts, controller 7 with
  value \<open>v\<close> sets and caches the volume \<open>v / 127\<close> of the selected track: 0 for 0, 1 for
  127, non-decreasing in \<open>v\<close>. On every surface controller 7 leaves the state, makes
  the host calls and has the outcome of controller \<open>MIDI_CC_TRACK_VOLUME\<close>. (Floats are
  read as reals.)
\<close>

theorem cc7_volume_mapping:
  "(mixer_selectedTrack srf = Inr track \<and> 0 \<le> track \<and>
    (\<forall>level. mixer_setTrackVolume srf track level = None) \<longrightarrow>
      calls_of (trace_of (HandleControlChange srf 7 v st)) =
        [MixerSelectedTrack, MixerSetTrackVolume track (real_of_int v / 127)] \<and>
      last_mixer_values (state_of (HandleControlChange srf 7 v st)) track =
        Some (real_of_int v / 127) \<and>
      last_mixer_values (state_of (HandleControlChange srf 7 0 st)) track = Some 0 \<and>
      last_mixer_values (state_of (HandleControlChange srf 7 127 st)) track = Some 1 \<and>
      (v \<le> w \<longrightarrow>
         the (last_mixer_values (state_of (HandleControlChange srf 7 v st)) track) \<le>
         the (last_mixer_values (state_of (HandleControlChange srf 7 w st')) track))) \<and>
   state_of (OnMidiIn srf \<lparr>status = 0xB0, data1 = 7, data2 = v\<rparr> st) =
     state_of (HandleControlChange srf 7 v st) \<and>
   state_of (HandleControlChange srf 7 v st) =
     state_of (HandleControlChange srf MIDI_CC_TRACK_VOLUME v st) \<and>
   calls_of (trace_of (HandleControlChange srf 7 v st)) =
     calls_of (trace_of (HandleControlChange srf MIDI_CC_TRACK_VOLUME v st)) \<and>
   raised (HandleControlChange srf 7 v st) =
     raised (HandleControlChange srf MIDI_CC_TRACK_VOLUME v st)"
proof -
  have mapping:
    "calls_of (trace_of (HandleControlChange srf 7 v st)) =
        [MixerSelectedTrack, MixerSetTrackVolume track (real_of_int v / 127)] \<and>
      last_mixer_values (state_of (HandleControlChange srf 7 v st)) track =
        Some (real_of_int v / 127) \<and>
      last_mixer_values (state_of (HandleControlChange srf 7 0 st)) track = Some 0 \<and>
      last_mixer_values (state_of (HandleControlChange srf 7 127 st)) track = Some 1 \<and>
      (v \<le> w \<longrightarrow>
         the (last_mixer_values (state_of (HandleControlChange srf 7 v st)) track) \<le>
         the (last_mixer_values (state_of (HandleControlChange srf 7 w st')) track))"
    if sel: "mixer_selectedTrack srf = Inr track" and pos: "0 \<le> track"
      and acc: "\<forall>level. mixer_setTrackVolume srf track level = None"
  proof -
    have s: "last_mixer_values (state_of (HandleControlChange srf 7 u s)) track =
        Some (real_of_int u / 127)" for u s
      using sel pos acc by (simp add: HandleControlChange_volume)
    have c: "calls_of (trace_of (HandleControlChange srf 7 v st)) =
             [MixerSelectedTrack, MixerSetTrackVolume track (real_of_int v / 127)]"
      using sel pos by (simp add: HandleControlChange_volume)
    have lo: "last_mixer_values (state_of (HandleControlChange srf 7 0 st)) track = Some 0"
      and hi: "last_mixer_values (state_of (HandleControlChange srf 7 127 st)) track = Some 1"
      by (simp_all add: s)
    have m: "v \<le> w \<longrightarrow>
              the (last_mixer_values (state_of (HandleControlChange srf 7 v st)) track) \<le>
              the (last_mixer_values (state_of (HandleControlChange srf 7 w st')) track)"
      by (simp add: s)
    from c s [of v st] lo hi m show ?thesis by blast
  qed
  have o: "state_of (OnMidiIn srf \<lparr>status = 0xB0, data1 = 7, data2 = v\<rparr> st) =
           state_of (HandleControlChange srf 7 v st)"
    by (simp add: OnMidiIn_parts decode_def)
  have a1: "state_of (HandleControlChange srf 7 v st) =
           state_of (HandleControlChange srf MIDI_CC_TRACK_VOLUME v st)"
    and a2: "calls_of (trace_of (HandleControlChange srf 7 v st)) =
           calls_of (trace_of (HandleControlChange srf MIDI_CC_TRACK_VOLUME v st))"
    and a3: "raised (HandleControlChange srf 7 v st) =
           raised (HandleControlChange srf MIDI_CC_TRACK_VOLUME v st)"
    by (simp_all add: HandleControlChange_volume)
  from mapping o a1 a2 a3 show ?thesis by blast
qed

theorem cc7_volume_mapping_witness:
  "mixer_selectedTrack surface_ok = Inr 2 \<and> (0::int) \<le> 2 \<and>
   (\<forall>level. mixer_setTrackVolume surface_ok 2 level = None) \<and>
   last_mixer_values (state_of (HandleControlChange surface_ok 7 0 init_state)) 2 = Some 0 \<and>
   last_mixer_values (state_of (HandleControlChange surface_ok 7 127 init_state)) 2 = Some 1 \<and>
   calls_of (trace_of (HandleControlChange surface_ok 7 64 init_state)) =
     [MixerSelectedTrack, MixerSetTrackVolume 2 (real_of_int 64 / 127)] \<and>
   state_of (HandleControlChange surface_ok 7 64 init_state) =
     state_of (HandleControlChange surface_ok MIDI_CC_TRACK_VOLUME 64 init_state)"
proof -
  have h1: "mixer_selectedTrack surface_ok = Inr 2" by (simp add: surface_ok_def)
  have h2: "(0::int) \<le> 2" by simp
  have h3: "\<forall>level. mixer_setTrackVolume surface_ok 2 level = None"
    by (simp add: surface_ok_def)
  from cc7_volume_mapping [where srf = surface_ok and track = 2 and v = 64
      and st = init_state and w = 64 and st' = init_state] h1 h2 h3
  show ?thesis by blast
qed

text \<open>
  C10. Two deliveries of the same messages, on the same surfaces, from states that
  differ only in \<open>automation_enabled\<close>, have the same effects in the same order (host
  calls and log lines), the same outcome, and final states equal in every other field.
  A message other than controller 64 leaves the flag as it was, and so does \<open>reset\<close>.
\<close>

theorem automation_flag_never_read:
  "trace_of (deliver resume frames (st\<lparr>automation_enabled := b\<rparr>)) =
     trace_of (deliver resume frames st) \<and>
   raised (deliver resume frames (st\<lparr>automation_enabled := b\<rparr>)) =
     raised (deliver resume frames st) \<and>
   (state_of (deliver resume frames (st\<lparr>automation_enabled := b\<rparr>)))
      \<lparr>automation_enabled := x\<rparr> =
     (state_of (deliver resume frames st))\<lparr>automation_enabled := x\<rparr> \<and>
   (\<not> (status ev = 0xB0 \<and> data1 ev = 64) \<longrightarrow>
      automation_enabled (state_of (OnMidiIn srf ev st)) = automation_enabled st) \<and>
   automation_enabled (reset st) = automation_enabled st"
proof -
  obtain b' where d: "deliver resume frames (st\<lparr>automation_enabled := b\<rparr>) =
     ((state_of (deliver resume frames st))\<lparr>automation_enabled := b'\<rparr>,
      trace_of (deliver resume frames st),
      raised (deliver resume frames st))"
    using deliver_flag by blast
  have w: "\<not> (status ev = 0xB0 \<and> data1 ev = 64) \<longrightarrow>
      automation_enabled (state_of (OnMidiIn srf ev st)) = automation_enabled st"
    by (simp add: OnMidiIn_flag_state)
  have z: "automation_enabled (reset st) = automation_enabled st" by (simp add: reset_def)
  show ?thesis using w z by (simp add: d)
qed

theorem automation_flag_never_read_witness:
  "trace_of (deliver False
     [(surface_ok, \<lparr>status = 0xB0, data1 = 1, data2 = 100\<rparr>),
      (surface_ok, \<lparr>status = 0x90, data1 = 36, data2 = 100\<rparr>)]
     (init_state\<lparr>automation_enabled := False\<rparr>)) =
   trace_of (deliver False
     [(surface_ok, \<lparr>status = 0xB0, data1 = 1, data2 = 100\<rparr>),
      (surface_ok, \<lparr>status = 0x90, data1 = 36, data2 = 100\<rparr>)] init_state) \<and>
   \<not> (status \<lparr>status = 0xB0, data1 = 1, data2 = 100\<rparr> = 0xB0 \<and>
      data1 \<lparr>status = 0xB0, data1 = 1, data2 = 100\<rparr> = 64) \<and>
   automation_enabled (state_of
     (OnMidiIn surface_ok \<lparr>status = 0xB0, data1 = 1, data2 = 100\<rparr> init_state)) =
   automation_enabled init_state"
proof -
  have h: "\<not> (status \<lparr>status = 0xB0, data1 = 1, data2 = 100\<rparr> = 0xB0 \<and>
      data1 \<lparr>status = 0xB0, data1 = 1, data2 = 100\<rparr> = (64::int))" by simp
  from automation_flag_never_read [where resume = False
     and frames = "[(surface_ok, \<lparr>status = 0xB0, data1 = 1, data2 = 100\<rparr>),
      (surface_ok, \<lparr>status = 0x90, data1 = 36, data2 = 100\<rparr>)]"
     and st = init_state and b = False
     and ev = "\<lparr>status = 0xB0, data1 = 1, data2 = 100\<rparr>" and srf = surface_ok] h
  show ?thesis by blast
qed

end
